theory Spec2Isabelle
  imports Main "HOL-Library.Signed_Division"
begin

section \<open>The guessing game of \<^verbatim>\<open>main.py\<close>: data model\<close>

text \<open>
  Python exceptions are values of \<open>error\<close>; a method that may raise returns
  \<open>error + 'a\<close> with \<open>Inl\<close> for the exception. \<open>NoSuchObject\<close> is not an
  exception of Python: it is the answer of the model when an address of the navigation
  stack names no object of the store, which the program cannot bring about.
\<close>

datatype error = ZeroDivisionError | IndexError | FileNotFoundError | UnpicklingError
  | EOFError | KeyError | NoSuchObject

datatype Difficulty = EASY | MEDIUM | HARD

fun DIFFICULTY_SECRET_NUMBER :: "Difficulty \<Rightarrow> int" where
  "DIFFICULTY_SECRET_NUMBER EASY = 100"
| "DIFFICULTY_SECRET_NUMBER MEDIUM = 1000"
| "DIFFICULTY_SECRET_NUMBER HARD = 100000"

fun DIFFICULTY_WIN_SCORE :: "Difficulty \<Rightarrow> int" where
  "DIFFICULTY_WIN_SCORE EASY = 10"
| "DIFFICULTY_WIN_SCORE MEDIUM = 100"
| "DIFFICULTY_WIN_SCORE HARD = 1000"

record GameSettings =
  difficulty :: Difficulty

definition GameSettings_default :: GameSettings where
  "GameSettings_default = \<lparr>difficulty = MEDIUM\<rparr>"

record GameReport =
  guess_count :: int
  score :: int

definition GameReport_default :: GameReport where
  "GameReport_default = \<lparr>guess_count = 0, score = 0\<rparr>"

text \<open>
  \<^verbatim>\<open>DIFFICULTY_WIN_SCORE[settings.difficulty] // report.guess_count\<close>: Python's
  \<^verbatim>\<open>//\<close> on integers is floor division, which is \<open>div\<close> on \<open>int\<close>, and raises
  ZeroDivisionError on a zero divisor.
\<close>

definition compute_score :: "GameSettings \<Rightarrow> GameReport \<Rightarrow> error + int" where
  "compute_score settings report =
     (if guess_count report = 0 then Inl ZeroDivisionError
      else Inr (DIFFICULTY_WIN_SCORE (difficulty settings) div guess_count report))"

datatype GameEvent = GuessTooHigh | GuessTooLow | PlayerWin GameReport

datatype GameAction = GUESS | QUIT

record Player =
  guess :: int
  action :: "GameAction option"

definition Player_default :: Player where
  "Player_default = \<lparr>guess = 0, action = None\<rparr>"

record GameState =
  secret_number :: int
  player :: Player
  settings :: GameSettings
  report :: GameReport

definition GameState_default :: GameState where
  "GameState_default =
     \<lparr>secret_number = 0, player = Player_default,
      settings = GameSettings_default, report = GameReport_default\<rparr>"

text \<open>
  State objects live in a store and are named by their address: the navigation stack
  holds addresses, and an event handler is the bound method of the Lobby object that
  created the child (\<^verbatim>\<open>_event_handler=self._on_game_event\<close>), so it names that
  Lobby by its address. \<open>NO_HANDLER\<close> is the default that does nothing.
\<close>

type_synonym addr = nat

datatype GameEventHandler = NO_HANDLER | Lobby_on_game_event_of addr

datatype NewGameSetupEvent = NewGameSettingsValidated GameSettings

datatype NewGameSetupEventHandler = NO_SETUP_HANDLER | Lobby_on_new_game_setup_event_of addr

datatype NewGameSetupAction = VALIDATE

datatype LobbyAction = NEW_GAME | LOAD_GAME | LOBBY_QUIT

datatype MainMenuAction = NEW_LOBBY | LOAD_LOBBY | CREDITS | MENU_QUIT

text \<open>
  \<open>g_action\<close> is the attribute \<^verbatim>\<open>self._action\<close> that \<^verbatim>\<open>Game.update\<close> assigns;
  the dataclass does not declare it, so it is absent (\<open>None\<close>) until the first update
  and \<open>Some None\<close> afterwards. The intent that \<^verbatim>\<open>_handle_action\<close> reads is
  \<^verbatim>\<open>self.player.action\<close>, inside \<open>g_state\<close>.
\<close>

record Game =
  g_state :: GameState
  g_event_handler :: GameEventHandler
  g_action :: "GameAction option option"

record NewGameSetup =
  n_settings :: GameSettings
  n_event_handler :: NewGameSetupEventHandler
  n_action :: "NewGameSetupAction option"

record LobbyState =
  lobby_score :: int

definition LobbyState_default :: LobbyState where
  "LobbyState_default = \<lparr>lobby_score = 0\<rparr>"

record Lobby =
  l_state :: LobbyState
  l_action :: "LobbyAction option"
  l_game_settings :: GameSettings
  l_create_game :: bool
  l_enabled :: bool

record MainMenu =
  m_action :: "MainMenuAction option"

record Victory =
  v_settings :: GameSettings
  v_report :: GameReport
  v_go_next :: bool

record Credits =
  c_go_next :: bool

datatype State = SGame Game | SNewGameSetup NewGameSetup | SLobby Lobby
  | SMainMenu MainMenu | SVictory Victory | SCredits Credits

text \<open>
  The Controller is an abstract class: a state hands itself to \<^verbatim>\<open>update\<close> and
  \<^verbatim>\<open>draw\<close>, which may change the fields of that state and the controller's own
  data (\<open>'c\<close>). \<^verbatim>\<open>draw\<close> of the one controller of the program also looks whether
  the two save files exist, so it is given the two answers (game file, lobby file).
\<close>

record 'c Controller =
  ctl_update_Game :: "Game \<Rightarrow> 'c \<Rightarrow> error + (Game \<times> 'c)"
  ctl_update_NewGameSetup :: "NewGameSetup \<Rightarrow> 'c \<Rightarrow> error + (NewGameSetup \<times> 'c)"
  ctl_update_Lobby :: "Lobby \<Rightarrow> 'c \<Rightarrow> error + (Lobby \<times> 'c)"
  ctl_update_MainMenu :: "MainMenu \<Rightarrow> 'c \<Rightarrow> error + (MainMenu \<times> 'c)"
  ctl_update_Victory :: "Victory \<Rightarrow> 'c \<Rightarrow> error + (Victory \<times> 'c)"
  ctl_update_Credits :: "Credits \<Rightarrow> 'c \<Rightarrow> error + (Credits \<times> 'c)"
  ctl_draw :: "State \<Rightarrow> bool \<Rightarrow> bool \<Rightarrow> 'c \<Rightarrow> 'c"
  ctl_on_event :: "GameEvent \<Rightarrow> 'c \<Rightarrow> 'c"

text \<open>
  The libraries the program calls are parameters. \<open>pk_dumps_game\<close> and
  \<open>pk_loads_game\<close> stand for \<^verbatim>\<open>pickle.dumps\<close> and \<^verbatim>\<open>pickle.loads\<close> on a
  GameState, the other two on a LobbyState; \<open>'b\<close> is the type of file contents.
\<close>

record 'b Pickle =
  pk_dumps_game :: "GameState \<Rightarrow> 'b"
  pk_loads_game :: "'b \<Rightarrow> error + GameState"
  pk_dumps_lobby :: "LobbyState \<Rightarrow> 'b"
  pk_loads_lobby :: "'b \<Rightarrow> error + LobbyState"

text \<open>
  The world a state's \<^verbatim>\<open>update\<close> runs in: the store of State objects, the
  \<^verbatim>\<open>_states\<close> list of the MainLoop (last element on top), the two files
  \<^verbatim>\<open>SAVED_GAME_PATH\<close> and \<^verbatim>\<open>SAVED_LOBBY_PATH\<close> (\<open>None\<close> when the file does not
  exist), the data of the one controller every state refers to, and the state of the
  random generator (\<open>'r\<close>).
\<close>

record ('c, 'r, 'b) World =
  heap :: "addr \<Rightarrow> State option"
  next_addr :: addr
  states :: "addr list"
  saved_game :: "'b option"
  saved_lobby :: "'b option"
  controller :: 'c
  rng :: 'r

section \<open>MainLoop\<close>

text \<open>\<^verbatim>\<open>self._states.pop()\<close> raises IndexError on the empty list.\<close>

definition pop_state :: "('c, 'r, 'b) World \<Rightarrow> error + (addr \<times> ('c, 'r, 'b) World)" where
  "pop_state w =
     (if states w = [] then Inl IndexError
      else Inr (last (states w), w\<lparr>states := butlast (states w)\<rparr>))"

definition push_state :: "addr \<Rightarrow> ('c, 'r, 'b) World \<Rightarrow> ('c, 'r, 'b) World" where
  "push_state a w = w\<lparr>states := states w @ [a]\<rparr>"

text \<open>Creating a State object: it gets an address no other object has.\<close>

definition new_object :: "State \<Rightarrow> ('c, 'r, 'b) World \<Rightarrow> addr \<times> ('c, 'r, 'b) World" where
  "new_object s w =
     (next_addr w, w\<lparr>heap := (heap w)(next_addr w \<mapsto> s), next_addr := Suc (next_addr w)\<rparr>)"

section \<open>Lobby: the handlers its children call\<close>

definition Lobby_on_game_event :: "GameEvent \<Rightarrow> Lobby \<Rightarrow> Lobby" where
  "Lobby_on_game_event event l =
     (case event of
        PlayerWin r \<Rightarrow> l\<lparr>l_state := (l_state l)\<lparr>lobby_score := lobby_score (l_state l) + score r\<rparr>\<rparr>
      | _ \<Rightarrow> l)"

definition Lobby_on_new_game_setup_event :: "NewGameSetupEvent \<Rightarrow> Lobby \<Rightarrow> Lobby" where
  "Lobby_on_new_game_setup_event event l =
     (case event of
        NewGameSettingsValidated s \<Rightarrow>
          l\<lparr>l_game_settings := s, l_create_game := True, l_enabled := False\<rparr>)"

text \<open>
  Calling a handler: \<open>NO_HANDLER\<close> does nothing; a bound method runs on the Lobby
  object at its address and changes that object in the store.
\<close>

definition call_game_handler ::
  "GameEventHandler \<Rightarrow> GameEvent \<Rightarrow> ('c, 'r, 'b) World \<Rightarrow> ('c, 'r, 'b) World" where
  "call_game_handler h event w =
     (case h of
        NO_HANDLER \<Rightarrow> w
      | Lobby_on_game_event_of a \<Rightarrow>
          (case heap w a of
             Some (SLobby l) \<Rightarrow> w\<lparr>heap := (heap w)(a \<mapsto> SLobby (Lobby_on_game_event event l))\<rparr>
           | _ \<Rightarrow> w))"

definition call_setup_handler ::
  "NewGameSetupEventHandler \<Rightarrow> NewGameSetupEvent \<Rightarrow> ('c, 'r, 'b) World \<Rightarrow> ('c, 'r, 'b) World" where
  "call_setup_handler h event w =
     (case h of
        NO_SETUP_HANDLER \<Rightarrow> w
      | Lobby_on_new_game_setup_event_of a \<Rightarrow>
          (case heap w a of
             Some (SLobby l) \<Rightarrow>
               w\<lparr>heap := (heap w)(a \<mapsto> SLobby (Lobby_on_new_game_setup_event event l))\<rparr>
           | _ \<Rightarrow> w))"

section \<open>Game\<close>

text \<open>
  A method of a state takes the object (\<^verbatim>\<open>self\<close>) and the world and returns both,
  changed; the caller stores the object back at its address. The handlers a Game calls
  change a Lobby, which is another object.
\<close>

text \<open>
  \<^verbatim>\<open>Game.initialize\<close>: \<open>randint\<close> stands for \<^verbatim>\<open>random.randint\<close>, which takes the
  two ends of the range and the generator's state.
\<close>

definition Game_initialize ::
  "(int \<Rightarrow> int \<Rightarrow> 'r \<Rightarrow> int \<times> 'r) \<Rightarrow> GameSettings \<Rightarrow> Game \<Rightarrow> 'r \<Rightarrow> Game \<times> 'r" where
  "Game_initialize randint s g r =
     (let st = GameState_default\<lparr>settings := s\<rparr>;
          (n, r') = randint 0 (DIFFICULTY_SECRET_NUMBER (difficulty s)) r
      in (g\<lparr>g_state := st\<lparr>secret_number := n\<rparr>\<rparr>, r'))"

text \<open>\<^verbatim>\<open>open(SAVED_GAME_PATH, "wb")\<close> creates the file or replaces its contents.\<close>

definition Game_save_state ::
  "'b Pickle \<Rightarrow> Game \<Rightarrow> ('c, 'r, 'b) World \<Rightarrow> ('c, 'r, 'b) World" where
  "Game_save_state pk g w = w\<lparr>saved_game := Some (pk_dumps_game pk (g_state g))\<rparr>"

definition Game_load_state ::
  "'b Pickle \<Rightarrow> Game \<Rightarrow> ('c, 'r, 'b) World \<Rightarrow> error + Game" where
  "Game_load_state pk g w =
     (case saved_game w of
        None \<Rightarrow> Inl FileNotFoundError
      | Some bytes \<Rightarrow>
          (case pk_loads_game pk bytes of
             Inl e \<Rightarrow> Inl e
           | Inr st \<Rightarrow> Inr (g\<lparr>g_state := st\<rparr>)))"

definition Game_check_guess ::
  "'c Controller \<Rightarrow> Game \<Rightarrow> ('c, 'r, 'b) World \<Rightarrow> error + (Game \<times> ('c, 'r, 'b) World)" where
  "Game_check_guess ctl g w =
     (let st = g_state g;
          w1 = (if guess (player st) > secret_number st
                then w\<lparr>controller := ctl_on_event ctl GuessTooHigh (controller w)\<rparr> else w);
          w2 = (if guess (player st) < secret_number st
                then w1\<lparr>controller := ctl_on_event ctl GuessTooLow (controller w1)\<rparr> else w1)
      in if guess (player st) = secret_number st
         then (case compute_score (settings st) (report st) of
                 Inl e \<Rightarrow> Inl e
               | Inr sc \<Rightarrow>
                   (let g' = g\<lparr>g_state := st\<lparr>report := (report st)\<lparr>score := sc\<rparr>\<rparr>\<rparr>;
                        w3 = call_game_handler (g_event_handler g')
                               (PlayerWin (report (g_state g'))) w2
                    in case pop_state w3 of
                         Inl e \<Rightarrow> Inl e
                       | Inr (_, w4) \<Rightarrow>
                           (let (v, w5) = new_object
                                  (SVictory \<lparr>v_settings = settings (g_state g'),
                                             v_report = report (g_state g'),
                                             v_go_next = False\<rparr>) w4
                            in Inr (g', push_state v w5))))
         else Inr (g, w2))"

text \<open>\<^verbatim>\<open>self._state.report.guess_count += 1\<close>, the first statement of the GUESS branch.\<close>

definition Game_count_guess :: "Game \<Rightarrow> Game" where
  "Game_count_guess g =
     g\<lparr>g_state := (g_state g)\<lparr>report := (report (g_state g))
          \<lparr>guess_count := guess_count (report (g_state g)) + 1\<rparr>\<rparr>\<rparr>"

definition Game_handle_action ::
  "'c Controller \<Rightarrow> 'b Pickle \<Rightarrow> Game \<Rightarrow> ('c, 'r, 'b) World
     \<Rightarrow> error + (Game \<times> ('c, 'r, 'b) World)" where
  "Game_handle_action ctl pk g w =
     (case (if action (player (g_state g)) = Some GUESS
            then Game_check_guess ctl (Game_count_guess g) w
            else Inr (g, w)) of
        Inl e \<Rightarrow> Inl e
      | Inr (g1, w1) \<Rightarrow>
          if action (player (g_state g1)) = Some QUIT
          then (case pop_state (Game_save_state pk g1 w1) of
                  Inl e \<Rightarrow> Inl e
                | Inr (_, w2) \<Rightarrow> Inr (g1, w2))
          else Inr (g1, w1))"

text \<open>The first statement of \<^verbatim>\<open>Game.update\<close>: \<^verbatim>\<open>self._action = None\<close>.\<close>

definition Game_update_begin :: "Game \<Rightarrow> Game" where
  "Game_update_begin g = g\<lparr>g_action := Some None\<rparr>"

definition Game_update ::
  "'c Controller \<Rightarrow> 'b Pickle \<Rightarrow> Game \<Rightarrow> ('c, 'r, 'b) World
     \<Rightarrow> error + (Game \<times> ('c, 'r, 'b) World)" where
  "Game_update ctl pk g w =
     (case ctl_update_Game ctl (Game_update_begin g) (controller w) of
        Inl e \<Rightarrow> Inl e
      | Inr (g1, c1) \<Rightarrow> Game_handle_action ctl pk g1 (w\<lparr>controller := c1\<rparr>))"

section \<open>NewGameSetup\<close>

definition NewGameSetup_handle_action ::
  "NewGameSetup \<Rightarrow> ('c, 'r, 'b) World \<Rightarrow> error + (NewGameSetup \<times> ('c, 'r, 'b) World)" where
  "NewGameSetup_handle_action n w =
     (if n_action n = Some VALIDATE
      then (case pop_state (call_setup_handler (n_event_handler n)
                              (NewGameSettingsValidated (n_settings n)) w) of
              Inl e \<Rightarrow> Inl e
            | Inr (_, w1) \<Rightarrow> Inr (n, w1))
      else Inr (n, w))"

definition NewGameSetup_update ::
  "'c Controller \<Rightarrow> NewGameSetup \<Rightarrow> ('c, 'r, 'b) World
     \<Rightarrow> error + (NewGameSetup \<times> ('c, 'r, 'b) World)" where
  "NewGameSetup_update ctl n w =
     (case ctl_update_NewGameSetup ctl (n\<lparr>n_action := None\<rparr>) (controller w) of
        Inl e \<Rightarrow> Inl e
      | Inr (n1, c1) \<Rightarrow> NewGameSetup_handle_action n1 (w\<lparr>controller := c1\<rparr>))"

section \<open>Lobby\<close>

text \<open>The objects \<^verbatim>\<open>Game(controller, _event_handler=h)\<close> and the like, as constructed.\<close>

definition Game_new :: "GameEventHandler \<Rightarrow> Game" where
  "Game_new h = \<lparr>g_state = GameState_default, g_event_handler = h, g_action = None\<rparr>"

definition NewGameSetup_new :: "NewGameSetupEventHandler \<Rightarrow> NewGameSetup" where
  "NewGameSetup_new h =
     \<lparr>n_settings = GameSettings_default, n_event_handler = h, n_action = None\<rparr>"

definition Lobby_new :: Lobby where
  "Lobby_new =
     \<lparr>l_state = LobbyState_default, l_action = None, l_game_settings = GameSettings_default,
      l_create_game = False, l_enabled = True\<rparr>"

definition Lobby_initialize :: "Lobby \<Rightarrow> Lobby" where
  "Lobby_initialize l = l\<lparr>l_state := LobbyState_default\<lparr>lobby_score := 0\<rparr>\<rparr>"

definition Lobby_save_state ::
  "'b Pickle \<Rightarrow> Lobby \<Rightarrow> ('c, 'r, 'b) World \<Rightarrow> ('c, 'r, 'b) World" where
  "Lobby_save_state pk l w = w\<lparr>saved_lobby := Some (pk_dumps_lobby pk (l_state l))\<rparr>"

definition Lobby_load_state ::
  "'b Pickle \<Rightarrow> Lobby \<Rightarrow> ('c, 'r, 'b) World \<Rightarrow> error + Lobby" where
  "Lobby_load_state pk l w =
     (case saved_lobby w of
        None \<Rightarrow> Inl FileNotFoundError
      | Some bytes \<Rightarrow>
          (case pk_loads_lobby pk bytes of
             Inl e \<Rightarrow> Inl e
           | Inr st \<Rightarrow> Inr (l\<lparr>l_state := st\<rparr>)))"

text \<open>
  \<^verbatim>\<open>Lobby._handle_actions\<close>: three \<^verbatim>\<open>if\<close>s in a row on \<^verbatim>\<open>self._action\<close>, which
  none of them changes. \<open>a\<close> is the address of this Lobby, which the handlers given to
  the children are bound to.
\<close>

definition Lobby_handle_actions ::
  "'b Pickle \<Rightarrow> addr \<Rightarrow> Lobby \<Rightarrow> ('c, 'r, 'b) World
     \<Rightarrow> error + (Lobby \<times> ('c, 'r, 'b) World)" where
  "Lobby_handle_actions pk a l w =
     (let w1 = (if l_action l = Some NEW_GAME
                then (let (n, w') = new_object
                            (SNewGameSetup (NewGameSetup_new (Lobby_on_new_game_setup_event_of a))) w
                      in push_state n w')
                else w)
      in case (if l_action l = Some LOAD_GAME
               then (case Game_load_state pk (Game_new (Lobby_on_game_event_of a)) w1 of
                       Inl e \<Rightarrow> Inl e
                     | Inr g \<Rightarrow> (let (n, w') = new_object (SGame g) w1 in Inr (push_state n w')))
               else Inr w1) of
           Inl e \<Rightarrow> Inl e
         | Inr w2 \<Rightarrow>
             if l_action l = Some LOBBY_QUIT
             then (case pop_state (Lobby_save_state pk l w2) of
                     Inl e \<Rightarrow> Inl e
                   | Inr (_, w3) \<Rightarrow> Inr (l, w3))
             else Inr (l, w2))"

definition Lobby_update ::
  "'c Controller \<Rightarrow> 'b Pickle \<Rightarrow> (int \<Rightarrow> int \<Rightarrow> 'r \<Rightarrow> int \<times> 'r) \<Rightarrow> addr \<Rightarrow> Lobby
     \<Rightarrow> ('c, 'r, 'b) World \<Rightarrow> error + (Lobby \<times> ('c, 'r, 'b) World)" where
  "Lobby_update ctl pk randint a l w =
     (if l_create_game l
      then (let (g, r') = Game_initialize randint (l_game_settings l)
                            (Game_new (Lobby_on_game_event_of a)) (rng w);
                (n, w1) = new_object (SGame g) (w\<lparr>rng := r'\<rparr>)
            in Inr (l\<lparr>l_enabled := True, l_create_game := False\<rparr>, push_state n w1))
      else if \<not> l_enabled l then Inr (l, w)
      else (case ctl_update_Lobby ctl (l\<lparr>l_action := None\<rparr>) (controller w) of
              Inl e \<Rightarrow> Inl e
            | Inr (l1, c1) \<Rightarrow> Lobby_handle_actions pk a l1 (w\<lparr>controller := c1\<rparr>)))"

section \<open>MainMenu\<close>

definition MainMenu_handle_actions ::
  "'b Pickle \<Rightarrow> MainMenu \<Rightarrow> ('c, 'r, 'b) World \<Rightarrow> error + (MainMenu \<times> ('c, 'r, 'b) World)" where
  "MainMenu_handle_actions pk m w =
     (let w1 = (if m_action m = Some NEW_LOBBY
                then (let (n, w') = new_object (SLobby (Lobby_initialize Lobby_new)) w
                      in push_state n w')
                else w)
      in case (if m_action m = Some LOAD_LOBBY
               then (case Lobby_load_state pk Lobby_new w1 of
                       Inl e \<Rightarrow> Inl e
                     | Inr l \<Rightarrow> (let (n, w') = new_object (SLobby l) w1 in Inr (push_state n w')))
               else Inr w1) of
           Inl e \<Rightarrow> Inl e
         | Inr w2 \<Rightarrow>
             (let w3 = (if m_action m = Some CREDITS
                        then (let (n, w') = new_object (SCredits \<lparr>c_go_next = False\<rparr>) w2
                              in push_state n w')
                        else w2)
              in if m_action m = Some MENU_QUIT
                 then (case pop_state w3 of
                         Inl e \<Rightarrow> Inl e
                       | Inr (_, w4) \<Rightarrow> Inr (m, w4))
                 else Inr (m, w3)))"

definition MainMenu_update ::
  "'c Controller \<Rightarrow> 'b Pickle \<Rightarrow> MainMenu \<Rightarrow> ('c, 'r, 'b) World
     \<Rightarrow> error + (MainMenu \<times> ('c, 'r, 'b) World)" where
  "MainMenu_update ctl pk m w =
     (case ctl_update_MainMenu ctl (m\<lparr>m_action := None\<rparr>) (controller w) of
        Inl e \<Rightarrow> Inl e
      | Inr (m1, c1) \<Rightarrow> MainMenu_handle_actions pk m1 (w\<lparr>controller := c1\<rparr>))"

section \<open>Victory and Credits\<close>

definition Victory_go_next :: "Victory \<Rightarrow> Victory" where
  "Victory_go_next v = v\<lparr>v_go_next := True\<rparr>"

definition Victory_update ::
  "'c Controller \<Rightarrow> Victory \<Rightarrow> ('c, 'r, 'b) World
     \<Rightarrow> error + (Victory \<times> ('c, 'r, 'b) World)" where
  "Victory_update ctl v w =
     (case ctl_update_Victory ctl v (controller w) of
        Inl e \<Rightarrow> Inl e
      | Inr (v1, c1) \<Rightarrow>
          if v_go_next v1
          then (case pop_state (w\<lparr>controller := c1\<rparr>) of
                  Inl e \<Rightarrow> Inl e
                | Inr (_, w1) \<Rightarrow> Inr (v1, w1))
          else Inr (v1, w\<lparr>controller := c1\<rparr>))"

definition Credits_go_next :: "Credits \<Rightarrow> Credits" where
  "Credits_go_next c = c\<lparr>c_go_next := True\<rparr>"

definition Credits_update ::
  "'c Controller \<Rightarrow> Credits \<Rightarrow> ('c, 'r, 'b) World
     \<Rightarrow> error + (Credits \<times> ('c, 'r, 'b) World)" where
  "Credits_update ctl c w =
     (case ctl_update_Credits ctl c (controller w) of
        Inl e \<Rightarrow> Inl e
      | Inr (c1, k1) \<Rightarrow>
          if c_go_next c1
          then (case pop_state (w\<lparr>controller := k1\<rparr>) of
                  Inl e \<Rightarrow> Inl e
                | Inr (_, w1) \<Rightarrow> Inr (c1, w1))
          else Inr (c1, w\<lparr>controller := k1\<rparr>))"

section \<open>Dispatch and one turn of the main loop\<close>

text \<open>
  \<^verbatim>\<open>state.update(mainloop)\<close> on the object at address \<open>a\<close>: the method of the
  object's class runs, and the object as the method leaves it is stored back.
\<close>

definition put_object :: "addr \<Rightarrow> State \<Rightarrow> ('c, 'r, 'b) World \<Rightarrow> ('c, 'r, 'b) World" where
  "put_object a s w = w\<lparr>heap := (heap w)(a \<mapsto> s)\<rparr>"

definition State_update ::
  "'c Controller \<Rightarrow> 'b Pickle \<Rightarrow> (int \<Rightarrow> int \<Rightarrow> 'r \<Rightarrow> int \<times> 'r) \<Rightarrow> addr
     \<Rightarrow> ('c, 'r, 'b) World \<Rightarrow> error + ('c, 'r, 'b) World" where
  "State_update ctl pk randint a w =
     (case heap w a of
        None \<Rightarrow> Inl NoSuchObject
      | Some (SGame g) \<Rightarrow>
          (case Game_update ctl pk g w of
             Inl e \<Rightarrow> Inl e | Inr (g', w') \<Rightarrow> Inr (put_object a (SGame g') w'))
      | Some (SNewGameSetup n) \<Rightarrow>
          (case NewGameSetup_update ctl n w of
             Inl e \<Rightarrow> Inl e | Inr (n', w') \<Rightarrow> Inr (put_object a (SNewGameSetup n') w'))
      | Some (SLobby l) \<Rightarrow>
          (case Lobby_update ctl pk randint a l w of
             Inl e \<Rightarrow> Inl e | Inr (l', w') \<Rightarrow> Inr (put_object a (SLobby l') w'))
      | Some (SMainMenu m) \<Rightarrow>
          (case MainMenu_update ctl pk m w of
             Inl e \<Rightarrow> Inl e | Inr (m', w') \<Rightarrow> Inr (put_object a (SMainMenu m') w'))
      | Some (SVictory v) \<Rightarrow>
          (case Victory_update ctl v w of
             Inl e \<Rightarrow> Inl e | Inr (v', w') \<Rightarrow> Inr (put_object a (SVictory v') w'))
      | Some (SCredits c) \<Rightarrow>
          (case Credits_update ctl c w of
             Inl e \<Rightarrow> Inl e | Inr (c', w') \<Rightarrow> Inr (put_object a (SCredits c') w')))"

text \<open>
  \<^verbatim>\<open>state.draw()\<close>: every state hands itself to the controller, the Lobby only while
  it is enabled.
\<close>

definition State_draw :: "'c Controller \<Rightarrow> State \<Rightarrow> ('c, 'r, 'b) World \<Rightarrow> ('c, 'r, 'b) World" where
  "State_draw ctl s w =
     (case s of
        SLobby l \<Rightarrow>
          if \<not> l_enabled l then w
          else w\<lparr>controller := ctl_draw ctl s (saved_game w \<noteq> None) (saved_lobby w \<noteq> None)
                                (controller w)\<rparr>
      | _ \<Rightarrow> w\<lparr>controller := ctl_draw ctl s (saved_game w \<noteq> None) (saved_lobby w \<noteq> None)
                                (controller w)\<rparr>)"

text \<open>
  The body of the loop of \<^verbatim>\<open>MainLoop.run\<close>, which runs while the stack is not empty:
  the top state draws itself, then updates.
\<close>

definition MainLoop_tick ::
  "'c Controller \<Rightarrow> 'b Pickle \<Rightarrow> (int \<Rightarrow> int \<Rightarrow> 'r \<Rightarrow> int \<times> 'r)
     \<Rightarrow> ('c, 'r, 'b) World \<Rightarrow> error + ('c, 'r, 'b) World" where
  "MainLoop_tick ctl pk randint w =
     (if states w = [] then Inr w
      else (case heap w (last (states w)) of
              None \<Rightarrow> Inl NoSuchObject
            | Some s \<Rightarrow> State_update ctl pk randint (last (states w)) (State_draw ctl s w)))"

section \<open>HumanController\<close>

text \<open>
  \<open>console\<close> is what the player will type, line by line, each line as \<^verbatim>\<open>int(line)\<close>
  reads it: \<open>Some v\<close>, or \<open>None\<close> where \<^verbatim>\<open>int\<close> raises ValueError. Reading past the
  last line raises EOFError. What the console prints is not modelled.
\<close>

record HumanController =
  event_logs :: "string list"
  lobby_actions :: "(int \<times> LobbyAction) list"
  main_menu_actions :: "(int \<times> MainMenuAction) list"
  console :: "int option list"

text \<open>
  The two menus are dictionary literals with distinct keys, kept as association lists
  in the order written. The argument is \<^verbatim>\<open>SAVED_GAME_PATH.exists()\<close>, respectively
  \<^verbatim>\<open>SAVED_LOBBY_PATH.exists()\<close>.
\<close>

definition create_lobby_actions :: "bool \<Rightarrow> (int \<times> LobbyAction) list" where
  "create_lobby_actions game_exists =
     (if game_exists then [(0, LOAD_GAME), (1, NEW_GAME), (99, LOBBY_QUIT)]
      else [(0, NEW_GAME), (99, LOBBY_QUIT)])"

definition create_main_menu_actions :: "bool \<Rightarrow> (int \<times> MainMenuAction) list" where
  "create_main_menu_actions lobby_exists =
     (if lobby_exists then [(0, LOAD_LOBBY), (1, NEW_LOBBY), (2, CREDITS), (99, MENU_QUIT)]
      else [(0, NEW_LOBBY), (2, CREDITS), (99, MENU_QUIT)])"

text \<open>\<^verbatim>\<open>_ask\<close> with \<^verbatim>\<open>type=int\<close>: lines are read until one is an integer the validator accepts.\<close>

fun ask :: "(int \<Rightarrow> bool) \<Rightarrow> int option list \<Rightarrow> error + (int \<times> int option list)" where
  "ask validator [] = Inl EOFError"
| "ask validator (None # rest) = ask validator rest"
| "ask validator (Some v # rest) = (if validator v then Inr (v, rest) else ask validator rest)"

definition select :: "(int \<times> 'a) list \<Rightarrow> int option list \<Rightarrow> error + ('a \<times> int option list)" where
  "select choices lines =
     (case ask (\<lambda>v. map_of choices v \<noteq> None) lines of
        Inl e \<Rightarrow> Inl e
      | Inr (v, rest) \<Rightarrow>
          (case map_of choices v of None \<Rightarrow> Inl KeyError | Some x \<Rightarrow> Inr (x, rest)))"

definition update_Game :: "Game \<Rightarrow> HumanController \<Rightarrow> error + (Game \<times> HumanController)" where
  "update_Game g c =
     (case ask (\<lambda>_. True) (console c) of
        Inl e \<Rightarrow> Inl e
      | Inr (v, rest) \<Rightarrow>
          Inr (g\<lparr>g_state := (g_state g)\<lparr>player := (player (g_state g))
                                \<lparr>action := Some GUESS, guess := v\<rparr>\<rparr>\<rparr>,
               c\<lparr>console := rest\<rparr>))"

definition update_NewGameSetup ::
  "NewGameSetup \<Rightarrow> HumanController \<Rightarrow> error + (NewGameSetup \<times> HumanController)" where
  "update_NewGameSetup n c =
     (case select [(0, EASY), (1, MEDIUM), (2, HARD)] (console c) of
        Inl e \<Rightarrow> Inl e
      | Inr (d, rest) \<Rightarrow>
          Inr (n\<lparr>n_settings := (n_settings n)\<lparr>difficulty := d\<rparr>, n_action := Some VALIDATE\<rparr>,
               c\<lparr>console := rest\<rparr>))"

definition update_Lobby :: "Lobby \<Rightarrow> HumanController \<Rightarrow> error + (Lobby \<times> HumanController)" where
  "update_Lobby l c =
     (case select (lobby_actions c) (console c) of
        Inl e \<Rightarrow> Inl e
      | Inr (x, rest) \<Rightarrow> Inr (l\<lparr>l_action := Some x\<rparr>, c\<lparr>console := rest\<rparr>))"

definition update_MainMenu ::
  "MainMenu \<Rightarrow> HumanController \<Rightarrow> error + (MainMenu \<times> HumanController)" where
  "update_MainMenu m c =
     (case select (main_menu_actions c) (console c) of
        Inl e \<Rightarrow> Inl e
      | Inr (x, rest) \<Rightarrow> Inr (m\<lparr>m_action := Some x\<rparr>, c\<lparr>console := rest\<rparr>))"

text \<open>\<^verbatim>\<open>input("Press Enter to continue...")\<close> reads one line, whatever it holds.\<close>

definition update_Victory ::
  "Victory \<Rightarrow> HumanController \<Rightarrow> error + (Victory \<times> HumanController)" where
  "update_Victory v c =
     (case console c of
        [] \<Rightarrow> Inl EOFError
      | _ # rest \<Rightarrow> Inr (Victory_go_next v, c\<lparr>console := rest\<rparr>))"

definition update_Credits ::
  "Credits \<Rightarrow> HumanController \<Rightarrow> error + (Credits \<times> HumanController)" where
  "update_Credits k c =
     (case console c of
        [] \<Rightarrow> Inl EOFError
      | _ # rest \<Rightarrow> Inr (Credits_go_next k, c\<lparr>console := rest\<rparr>))"

text \<open>
  \<^verbatim>\<open>draw\<close>: the Game screen prints and empties the event log; the Lobby and MainMenu
  screens compute the menu they show and keep it for the next \<^verbatim>\<open>update\<close>.
\<close>

definition draw :: "State \<Rightarrow> bool \<Rightarrow> bool \<Rightarrow> HumanController \<Rightarrow> HumanController" where
  "draw s game_exists lobby_exists c =
     (case s of
        SGame _ \<Rightarrow> c\<lparr>event_logs := []\<rparr>
      | SLobby _ \<Rightarrow> c\<lparr>lobby_actions := create_lobby_actions game_exists\<rparr>
      | SMainMenu _ \<Rightarrow> c\<lparr>main_menu_actions := create_main_menu_actions lobby_exists\<rparr>
      | _ \<Rightarrow> c)"

definition on_event :: "GameEvent \<Rightarrow> HumanController \<Rightarrow> HumanController" where
  "on_event event c =
     (let c1 = (if event = GuessTooHigh
                then c\<lparr>event_logs := event_logs c @ [''[orange](v)[/orange] Guess is too high'']\<rparr>
                else c)
      in if event = GuessTooLow
         then c1\<lparr>event_logs := event_logs c1 @ [''[orange](^)[/orange] Guess is too low'']\<rparr>
         else c1)"

definition human :: "HumanController Controller" where
  "human =
     \<lparr>ctl_update_Game = update_Game, ctl_update_NewGameSetup = update_NewGameSetup,
      ctl_update_Lobby = update_Lobby, ctl_update_MainMenu = update_MainMenu,
      ctl_update_Victory = update_Victory, ctl_update_Credits = update_Credits,
      ctl_draw = draw, ctl_on_event = on_event\<rparr>"

section \<open>Play reachable from a fresh round or a loaded snapshot\<close>

text \<open>
  The Games of normal play, with the program's own controller: a round as
  \<^verbatim>\<open>Lobby.update\<close> creates it, a Game after one more update, and a Game loaded from
  the snapshot that such a Game saved, where the pickle library gives back what it was
  given.
\<close>

inductive normal_play ::
  "(int \<Rightarrow> int \<Rightarrow> 'r \<Rightarrow> int \<times> 'r) \<Rightarrow> 'b Pickle \<Rightarrow> Game \<Rightarrow> bool"
  for randint :: "int \<Rightarrow> int \<Rightarrow> 'r \<Rightarrow> int \<times> 'r" and pk :: "'b Pickle" where
  fresh: "normal_play randint pk (fst (Game_initialize randint s (Game_new h) r))"
| updated: "normal_play randint pk g
      \<Longrightarrow> Game_update human pk g (w :: (HumanController, 'r, 'b) World) = Inr (g', w')
      \<Longrightarrow> normal_play randint pk g'"
| loaded: "normal_play randint pk g
      \<Longrightarrow> pk_loads_game pk (pk_dumps_game pk (g_state g)) = Inr (g_state g)
      \<Longrightarrow> Game_load_state pk (Game_new h)
            (Game_save_state pk g (w :: (HumanController, 'r, 'b) World)) = Inr g'
      \<Longrightarrow> normal_play randint pk g'"

section \<open>Stand-ins for the libraries and a scripted controller, and example worlds\<close>

text \<open>
  A generator whose state is a counter: the draw is the counter folded into the range.
\<close>

definition counter_randint :: "int \<Rightarrow> int \<Rightarrow> int \<Rightarrow> int \<times> int" where
  "counter_randint a b r = (a + r mod (b - a + 1), r + 1)"

text \<open>A serializer that writes the fields of a state as a list of integers.\<close>

fun loads_game_list :: "int list \<Rightarrow> error + GameState" where
  "loads_game_list [s, g, a, d, n, sc] =
     (if (a = 0 \<or> a = 1 \<or> a = 2) \<and> (d = 0 \<or> d = 1 \<or> d = 2)
      then Inr \<lparr>secret_number = s,
                player = \<lparr>guess = g,
                          action = (if a = 0 then None else if a = 1 then Some GUESS else Some QUIT)\<rparr>,
                settings = \<lparr>difficulty = (if d = 0 then EASY else if d = 1 then MEDIUM else HARD)\<rparr>,
                report = \<lparr>guess_count = n, score = sc\<rparr>\<rparr>
      else Inl UnpicklingError)"
| "loads_game_list _ = Inl UnpicklingError"

fun loads_lobby_list :: "int list \<Rightarrow> error + LobbyState" where
  "loads_lobby_list [sc] = Inr \<lparr>lobby_score = sc\<rparr>"
| "loads_lobby_list _ = Inl UnpicklingError"

definition dumps_game_list :: "GameState \<Rightarrow> int list" where
  "dumps_game_list st =
     [secret_number st, guess (player st),
      (case action (player st) of None \<Rightarrow> 0 | Some GUESS \<Rightarrow> 1 | Some QUIT \<Rightarrow> 2),
      (case difficulty (settings st) of EASY \<Rightarrow> 0 | MEDIUM \<Rightarrow> 1 | HARD \<Rightarrow> 2),
      guess_count (report st), score (report st)]"

definition list_pickle :: "int list Pickle" where
  "list_pickle =
     \<lparr>pk_dumps_game = dumps_game_list, pk_loads_game = loads_game_list,
      pk_dumps_lobby = (\<lambda>st. [lobby_score st]), pk_loads_lobby = loads_lobby_list\<rparr>"

text \<open>
  A controller that plays a script: its data is the list of intents still to give to a
  Game, and it advances a Victory or Credits screen at once. It leaves the menus alone.
\<close>

definition scripted_update_Game ::
  "Game \<Rightarrow> (GameAction \<times> int) list \<Rightarrow> error + (Game \<times> (GameAction \<times> int) list)" where
  "scripted_update_Game g c =
     (case c of
        [] \<Rightarrow> Inl EOFError
      | (a, v) # rest \<Rightarrow>
          Inr (g\<lparr>g_state := (g_state g)\<lparr>player := \<lparr>guess = v, action = Some a\<rparr>\<rparr>\<rparr>, rest))"

definition scripted :: "(GameAction \<times> int) list Controller" where
  "scripted =
     \<lparr>ctl_update_Game = scripted_update_Game,
      ctl_update_NewGameSetup = (\<lambda>n c. Inr (n, c)),
      ctl_update_Lobby = (\<lambda>l c. Inr (l, c)),
      ctl_update_MainMenu = (\<lambda>m c. Inr (m, c)),
      ctl_update_Victory = (\<lambda>v c. Inr (Victory_go_next v, c)),
      ctl_update_Credits = (\<lambda>k c. Inr (Credits_go_next k, c)),
      ctl_draw = (\<lambda>s ge le c. c),
      ctl_on_event = (\<lambda>e c. c)\<rparr>"

text \<open>
  A Game of difficulty Medium with the given secret number whose player has guessed
  \<open>n\<close> times, the last guess being \<open>v\<close>; its handler is the Lobby at address 1.
\<close>

definition example_game :: "int \<Rightarrow> int \<Rightarrow> int \<Rightarrow> Game" where
  "example_game secret v n =
     \<lparr>g_state = \<lparr>secret_number = secret, player = \<lparr>guess = v, action = Some GUESS\<rparr>,
                 settings = \<lparr>difficulty = MEDIUM\<rparr>, report = \<lparr>guess_count = n, score = 0\<rparr>\<rparr>,
      g_event_handler = Lobby_on_game_event_of 1, g_action = Some None\<rparr>"

text \<open>A Hard round after three guesses whose player asks to quit.\<close>

definition example_quit_game :: Game where
  "example_quit_game =
     \<lparr>g_state = \<lparr>secret_number = 42, player = \<lparr>guess = 17, action = Some QUIT\<rparr>,
                 settings = \<lparr>difficulty = HARD\<rparr>, report = \<lparr>guess_count = 3, score = 0\<rparr>\<rparr>,
      g_event_handler = Lobby_on_game_event_of 1, g_action = Some None\<rparr>"

definition human_at :: "int option list \<Rightarrow> HumanController" where
  "human_at lines = \<lparr>event_logs = [], lobby_actions = [], main_menu_actions = [], console = lines\<rparr>"

text \<open>
  A MainMenu at address 0, a Lobby at address 1 and a third state at address 2, stacked
  in this order; no save file exists.
\<close>

definition example_world :: "State \<Rightarrow> 'c \<Rightarrow> ('c, int, int list) World" where
  "example_world s c =
     \<lparr>heap = [0 \<mapsto> SMainMenu \<lparr>m_action = Some NEW_LOBBY\<rparr>,
              1 \<mapsto> SLobby (Lobby_initialize Lobby_new), 2 \<mapsto> s],
      next_addr = 3, states = [0, 1, 2], saved_game = None, saved_lobby = None,
      controller = c, rng = 0\<rparr>"

section \<open>Facts about the event handlers and the winning branch\<close>

lemma floor_is_trunc:
  "1 \<le> n \<Longrightarrow> DIFFICULTY_WIN_SCORE d div n = DIFFICULTY_WIN_SCORE d sdiv n"
  by (cases d) (simp_all add: signed_divide_int_def sgn_if)

lemma states_call_game_handler:
  "states (call_game_handler h e w) = states w"
  by (simp add: call_game_handler_def split: GameEventHandler.splits option.splits State.splits)

lemma controller_call_game_handler:
  "controller (call_game_handler h e w) = controller w"
  by (simp add: call_game_handler_def split: GameEventHandler.splits option.splits State.splits)

lemma next_addr_call_game_handler:
  "next_addr (call_game_handler h e w) = next_addr w"
  by (simp add: call_game_handler_def split: GameEventHandler.splits option.splits State.splits)

lemma saved_game_call_game_handler:
  "saved_game (call_game_handler h e w) = saved_game w"
  by (simp add: call_game_handler_def split: GameEventHandler.splits option.splits State.splits)

text \<open>The winning branch of \<open>Game_check_guess\<close>, written out.\<close>

lemma Game_check_guess_win:
  assumes "guess (player (g_state g)) = secret_number (g_state g)"
    and "guess_count (report (g_state g)) \<noteq> 0"
    and "states w \<noteq> []"
  shows "Game_check_guess ctl g w =
     Inr (g\<lparr>g_state := (g_state g)\<lparr>report := (report (g_state g))
              \<lparr>score := DIFFICULTY_WIN_SCORE (difficulty (settings (g_state g)))
                          div guess_count (report (g_state g))\<rparr>\<rparr>\<rparr>,
          push_state (next_addr w)
            (snd (new_object
               (SVictory \<lparr>v_settings = settings (g_state g),
                          v_report = (report (g_state g))
                            \<lparr>score := DIFFICULTY_WIN_SCORE (difficulty (settings (g_state g)))
                                        div guess_count (report (g_state g))\<rparr>,
                          v_go_next = False\<rparr>)
               (snd (projr (pop_state
                  (call_game_handler (g_event_handler g)
                     (PlayerWin ((report (g_state g))
                        \<lparr>score := DIFFICULTY_WIN_SCORE (difficulty (settings (g_state g)))
                                    div guess_count (report (g_state g))\<rparr>)) w)))))))"
  using assms
  by (simp add: Game_check_guess_def compute_score_def Let_def pop_state_def new_object_def
      states_call_game_handler next_addr_call_game_handler split: prod.splits)

section \<open>The score of a won round\<close>

text \<open>
  C1. For every difficulty and every guess count \<open>n \<ge> 1\<close>, the score that the winning
  guess writes into the report is the win-score baseline of the difficulty divided by
  \<open>n\<close>: the floor division the code performs, which here is also the truncating one.
  The Game is on the navigation stack when it checks the guess, so the stack is not
  empty. A Medium round (baseline 100) won on the 4th guess scores 25.
\<close>

theorem winning_guess_score:
  assumes "guess (player (g_state g)) = secret_number (g_state g)"
    and "guess_count (report (g_state g)) = n"
    and "1 \<le> n"
    and "states w \<noteq> []"
  shows "\<exists>g' w'. Game_check_guess ctl g w = Inr (g', w')
           \<and> score (report (g_state g')) =
               DIFFICULTY_WIN_SCORE (difficulty (settings (g_state g))) div n
           \<and> score (report (g_state g')) =
               DIFFICULTY_WIN_SCORE (difficulty (settings (g_state g))) sdiv n"
proof -
  from assms have nz: "guess_count (report (g_state g)) \<noteq> 0" by simp
  show ?thesis
    using assms(2,3) floor_is_trunc [of n "difficulty (settings (g_state g))"]
    by (simp add: Game_check_guess_win [OF assms(1) nz assms(4)])
qed

theorem winning_guess_score_witness:
  "\<exists>g' w'. Game_check_guess human (example_game 7 7 4)
              (example_world (SGame (example_game 7 7 4)) (human_at [])) = Inr (g', w')
     \<and> score (report (g_state g')) = 25"
  using winning_guess_score [of "example_game 7 7 4" 4
      "example_world (SGame (example_game 7 7 4)) (human_at [])" human]
  by (simp add: example_game_def example_world_def)

section \<open>Clearing the intent at the start of a Game update\<close>

lemma Game_update_begin_keeps_state: "g_state (Game_update_begin g) = g_state g"
  by (simp add: Game_update_begin_def)

text \<open>
  C2. The claim is that the player's pending intent is reset to none before the
  Controller is asked for the next one. \<^verbatim>\<open>Game.update\<close> assigns \<^verbatim>\<open>self._action\<close>,
  as the updates of NewGameSetup, Lobby and MainMenu do, but the intent of a Game is
  \<^verbatim>\<open>self.player.action\<close>, which the assignment leaves as it was. Here a fresh Easy
  round with secret number 5 is updated once with the guess 3; the Game that the
  second update hands to the Controller still carries the intent GUESS of the first.
\<close>

theorem Game_update_hands_over_stale_intent:
  "\<not> isl (Game_update human list_pickle
             (fst (Game_initialize counter_randint \<lparr>difficulty = EASY\<rparr> (Game_new NO_HANDLER) 5))
             (example_world
                (SGame (fst (Game_initialize counter_randint \<lparr>difficulty = EASY\<rparr>
                               (Game_new NO_HANDLER) 5)))
                (human_at [Some 3, Some 5])))
   \<and> action (player (g_state (Game_update_begin (fst (projr
        (Game_update human list_pickle
             (fst (Game_initialize counter_randint \<lparr>difficulty = EASY\<rparr> (Game_new NO_HANDLER) 5))
             (example_world
                (SGame (fst (Game_initialize counter_randint \<lparr>difficulty = EASY\<rparr>
                               (Game_new NO_HANDLER) 5)))
                (human_at [Some 3, Some 5])))))))) = Some GUESS"
  by (simp add: Game_update_def Game_update_begin_def human_def update_Game_def human_at_def
      example_world_def Game_initialize_def counter_randint_def Game_new_def GameState_default_def
      Player_default_def GameReport_default_def
      Game_handle_action_def Game_count_guess_def Game_check_guess_def on_event_def Let_def)

section \<open>Victory and Credits\<close>

text \<open>
  C3, as claimed: the state pops itself on the update after the one that set the
  go-next flag, not in the same one. It fails: a Credits screen whose flag is unset is
  updated once, the player presses Enter, and that one update both sets the flag and
  pops the screen.
\<close>

theorem go_next_pops_in_same_update_counterexample:
  "\<not> c_go_next \<lparr>c_go_next = False\<rparr>
   \<and> \<not> isl (Credits_update human \<lparr>c_go_next = False\<rparr>
               (example_world (SCredits \<lparr>c_go_next = False\<rparr>) (human_at [None])))
   \<and> c_go_next (fst (projr (Credits_update human \<lparr>c_go_next = False\<rparr>
               (example_world (SCredits \<lparr>c_go_next = False\<rparr>) (human_at [None])))))
   \<and> states (example_world (SCredits \<lparr>c_go_next = False\<rparr>) (human_at [None])) = [0, 1, 2]
   \<and> states (snd (projr (Credits_update human \<lparr>c_go_next = False\<rparr>
               (example_world (SCredits \<lparr>c_go_next = False\<rparr>) (human_at [None]))))) = [0, 1]"
  by (simp add: Credits_update_def human_def update_Credits_def human_at_def example_world_def
      Credits_go_next_def pop_state_def)

text \<open>
  C3, amended. For a Victory and for a Credits state on a non-empty stack, with any
  controller: the update pops the top of the stack in the same update in which the
  Controller returns with the go-next flag set, and leaves the stack alone when the
  Controller returns with the flag unset. The program's controller sets the flag
  whenever the player types a line.
\<close>

theorem go_next_pops_in_same_update:
  assumes "states w \<noteq> []"
    and "ctl_update_Victory ctl v (controller w) = Inr (v1, c1)"
    and "ctl_update_Credits ctl k (controller w) = Inr (k1, c2)"
  shows "Victory_update ctl v w =
           Inr (v1, w\<lparr>controller := c1,
                       states := (if v_go_next v1 then butlast (states w) else states w)\<rparr>)
       \<and> Credits_update ctl k w =
           Inr (k1, w\<lparr>controller := c2,
                       states := (if c_go_next k1 then butlast (states w) else states w)\<rparr>)
       \<and> (\<forall>c rest x. v_go_next (fst (projr (update_Victory v (c\<lparr>console := x # rest\<rparr>))))
              \<and> c_go_next (fst (projr (update_Credits k (c\<lparr>console := x # rest\<rparr>)))))"
  using assms
  by (simp add: Victory_update_def Credits_update_def pop_state_def update_Victory_def
      update_Credits_def Victory_go_next_def Credits_go_next_def)

theorem go_next_pops_in_same_update_witness:
  "Victory_update human
       \<lparr>v_settings = GameSettings_default, v_report = GameReport_default, v_go_next = False\<rparr>
       (example_world (SCredits \<lparr>c_go_next = False\<rparr>) (human_at [None])) =
     Inr (\<lparr>v_settings = GameSettings_default, v_report = GameReport_default, v_go_next = True\<rparr>,
        (example_world (SCredits \<lparr>c_go_next = False\<rparr>) (human_at [None]))
          \<lparr>controller := human_at [], states := [0, 1]\<rparr>)
   \<and> Credits_update human \<lparr>c_go_next = False\<rparr>
       (example_world (SCredits \<lparr>c_go_next = False\<rparr>) (human_at [None])) =
     Inr (\<lparr>c_go_next = True\<rparr>,
        (example_world (SCredits \<lparr>c_go_next = False\<rparr>) (human_at [None]))
          \<lparr>controller := human_at [], states := [0, 1]\<rparr>)"
  using go_next_pops_in_same_update [of
      "example_world (SCredits \<lparr>c_go_next = False\<rparr>) (human_at [None])" human
      "\<lparr>v_settings = GameSettings_default, v_report = GameReport_default, v_go_next = False\<rparr>"
      "\<lparr>v_settings = GameSettings_default, v_report = GameReport_default, v_go_next = True\<rparr>"
      "human_at []" "\<lparr>c_go_next = False\<rparr>" "\<lparr>c_go_next = True\<rparr>" "human_at []"]
  by (simp add: human_def update_Victory_def update_Credits_def human_at_def example_world_def
      Victory_go_next_def Credits_go_next_def)

section \<open>The navigation stack on a win\<close>

text \<open>
  C4, as claimed: on a winning guess the Victory state is pushed first and the Game
  state popped afterwards. It fails: with the stack MainMenu, Lobby, Game (addresses
  0, 1, 2) the winning guess leaves MainMenu, Lobby and the new state at address 3, a
  Victory, whereas a pop after the push of address 3 would have taken that new state
  off again and left the Game on top.
\<close>

theorem win_pops_then_pushes_counterexample:
  "\<not> isl (Game_check_guess human (example_game 7 7 4)
            (example_world (SGame (example_game 7 7 4)) (human_at [])))
   \<and> states (snd (projr (Game_check_guess human (example_game 7 7 4)
            (example_world (SGame (example_game 7 7 4)) (human_at []))))) = [0, 1, 3]
   \<and> heap (snd (projr (Game_check_guess human (example_game 7 7 4)
            (example_world (SGame (example_game 7 7 4)) (human_at []))))) 3
       = Some (SVictory \<lparr>v_settings = \<lparr>difficulty = MEDIUM\<rparr>,
                         v_report = \<lparr>guess_count = 4, score = 25\<rparr>, v_go_next = False\<rparr>)
   \<and> states (snd (projr (pop_state (push_state 3
            (example_world (SGame (example_game 7 7 4)) (human_at []))))))
       = [0, 1, 2]"
  by (simp add: Game_check_guess_win example_game_def example_world_def pop_state_def
      push_state_def new_object_def states_call_game_handler next_addr_call_game_handler)

text \<open>
  C4, amended. When a guess equal to the secret number is checked by the Game on top of
  the stack (with a guess count other than zero, as it is after the guess was counted),
  the top of the stack, the Game, is popped first and then exactly one new Victory
  state is pushed: the stack below is as before, the Victory is the new top, and the
  depth is unchanged.
\<close>

theorem win_pops_then_pushes:
  assumes "guess (player (g_state g)) = secret_number (g_state g)"
    and "guess_count (report (g_state g)) \<noteq> 0"
    and "states w = rest @ [a]"
  shows "\<exists>g' w'. Game_check_guess ctl g w = Inr (g', w')
           \<and> states w' = rest @ [next_addr w]
           \<and> heap w' (next_addr w) =
               Some (SVictory \<lparr>v_settings = settings (g_state g'),
                               v_report = report (g_state g'), v_go_next = False\<rparr>)
           \<and> length (states w') = length (states w)
           \<and> states w' = states (push_state (next_addr w) (snd (projr (pop_state w))))
           \<and> fst (projr (pop_state w)) = a"
proof -
  from assms(3) have ne: "states w \<noteq> []" by simp
  show ?thesis
    using assms(3)
    by (simp add: Game_check_guess_win [OF assms(1,2) ne] pop_state_def push_state_def
        new_object_def states_call_game_handler next_addr_call_game_handler)
qed

theorem win_pops_then_pushes_witness:
  "\<exists>g' w'. Game_check_guess human (example_game 7 7 4)
              (example_world (SGame (example_game 7 7 4)) (human_at [])) = Inr (g', w')
     \<and> states w' = [0, 1, 3]
     \<and> heap w' 3 = Some (SVictory \<lparr>v_settings = settings (g_state g'),
                                     v_report = report (g_state g'), v_go_next = False\<rparr>)"
  using win_pops_then_pushes [of "example_game 7 7 4"
      "example_world (SGame (example_game 7 7 4)) (human_at [])" "[0, 1]" 2 human]
  by (auto simp add: example_game_def example_world_def)

section \<open>The notices of a guess\<close>

lemma Game_check_guess_high:
  "guess (player (g_state g)) > secret_number (g_state g) \<Longrightarrow>
   Game_check_guess ctl g w = Inr (g, w\<lparr>controller := ctl_on_event ctl GuessTooHigh (controller w)\<rparr>)"
  by (simp add: Game_check_guess_def Let_def)

lemma Game_check_guess_low:
  "guess (player (g_state g)) < secret_number (g_state g) \<Longrightarrow>
   Game_check_guess ctl g w = Inr (g, w\<lparr>controller := ctl_on_event ctl GuessTooLow (controller w)\<rparr>)"
  by (simp add: Game_check_guess_def Let_def)

lemma Game_count_guess_simps:
  "guess (player (g_state (Game_count_guess g))) = guess (player (g_state g))"
  "action (player (g_state (Game_count_guess g))) = action (player (g_state g))"
  "secret_number (g_state (Game_count_guess g)) = secret_number (g_state g)"
  "settings (g_state (Game_count_guess g)) = settings (g_state g)"
  "g_event_handler (Game_count_guess g) = g_event_handler g"
  "guess_count (report (g_state (Game_count_guess g))) = guess_count (report (g_state g)) + 1"
  by (simp_all add: Game_count_guess_def)

text \<open>
  C5. A Game whose intent is GUESS, with a guess count that is not negative and the Game
  on the stack, handles the intent with exactly one notice: a guess above the secret
  number has the Controller's \<^verbatim>\<open>on_event\<close> called once, with GuessTooHigh, and
  nothing else changes but the count; a guess below it, once with GuessTooLow; a guess
  equal to it leaves the Controller as it was and calls the Game's event handler once,
  with PlayerWin and the report, before the Victory object is created.
\<close>

theorem guess_fires_exactly_one_notice:
  assumes "action (player (g_state g)) = Some GUESS"
    and "0 \<le> guess_count (report (g_state g))"
    and "states w \<noteq> []"
  shows "(secret_number (g_state g) < guess (player (g_state g)) \<longrightarrow>
            Game_handle_action ctl pk g w =
              Inr (Game_count_guess g,
                   w\<lparr>controller := ctl_on_event ctl GuessTooHigh (controller w)\<rparr>))
       \<and> (guess (player (g_state g)) < secret_number (g_state g) \<longrightarrow>
            Game_handle_action ctl pk g w =
              Inr (Game_count_guess g,
                   w\<lparr>controller := ctl_on_event ctl GuessTooLow (controller w)\<rparr>))
       \<and> (guess (player (g_state g)) = secret_number (g_state g) \<longrightarrow>
            (\<exists>g' w'. Game_handle_action ctl pk g w = Inr (g', w')
               \<and> controller w' = controller w
               \<and> heap w' =
                   (heap (call_game_handler (g_event_handler g)
                            (PlayerWin (report (g_state g'))) w))
                   (next_addr w \<mapsto> SVictory \<lparr>v_settings = settings (g_state g'),
                                                v_report = report (g_state g'),
                                                v_go_next = False\<rparr>)))"
proof (intro conjI impI)
  assume "secret_number (g_state g) < guess (player (g_state g))"
  then show "Game_handle_action ctl pk g w =
      Inr (Game_count_guess g, w\<lparr>controller := ctl_on_event ctl GuessTooHigh (controller w)\<rparr>)"
    using assms(1)
    by (simp add: Game_handle_action_def Game_check_guess_high Game_count_guess_simps)
next
  assume "guess (player (g_state g)) < secret_number (g_state g)"
  then show "Game_handle_action ctl pk g w =
      Inr (Game_count_guess g, w\<lparr>controller := ctl_on_event ctl GuessTooLow (controller w)\<rparr>)"
    using assms(1)
    by (simp add: Game_handle_action_def Game_check_guess_low Game_count_guess_simps)
next
  assume eq: "guess (player (g_state g)) = secret_number (g_state g)"
  have a: "guess (player (g_state (Game_count_guess g)))
             = secret_number (g_state (Game_count_guess g))"
    using eq by (simp add: Game_count_guess_simps)
  have b: "guess_count (report (g_state (Game_count_guess g))) \<noteq> 0"
    using assms(2) by (simp add: Game_count_guess_simps)
  show "\<exists>g' w'. Game_handle_action ctl pk g w = Inr (g', w')
               \<and> controller w' = controller w
               \<and> heap w' =
                   (heap (call_game_handler (g_event_handler g)
                            (PlayerWin (report (g_state g'))) w))
                   (next_addr w \<mapsto> SVictory \<lparr>v_settings = settings (g_state g'),
                                                v_report = report (g_state g'),
                                                v_go_next = False\<rparr>)"
    using assms(1,3)
    by (simp add: Game_handle_action_def Game_check_guess_win [OF a b assms(3)]
        Game_count_guess_simps pop_state_def push_state_def new_object_def
        states_call_game_handler next_addr_call_game_handler controller_call_game_handler)
qed

theorem guess_fires_exactly_one_notice_witness:
  "event_logs (controller (snd (projr (Game_handle_action human list_pickle (example_game 7 9 3)
       (example_world (SGame (example_game 7 9 3)) (human_at []))))))
     = [''[orange](v)[/orange] Guess is too high'']
   \<and> event_logs (controller (snd (projr (Game_handle_action human list_pickle (example_game 7 2 3)
       (example_world (SGame (example_game 7 2 3)) (human_at []))))))
     = [''[orange](^)[/orange] Guess is too low'']
   \<and> (\<exists>g' w'. Game_handle_action human list_pickle (example_game 7 7 3)
          (example_world (SGame (example_game 7 7 3)) (human_at [])) = Inr (g', w')
        \<and> event_logs (controller w') = []
        \<and> heap w' 1 = Some (SLobby (Lobby_initialize Lobby_new
                               \<lparr>l_state := \<lparr>lobby_score = score (report (g_state g'))\<rparr>\<rparr>)))"
  using guess_fires_exactly_one_notice [of "example_game 7 9 3"
      "example_world (SGame (example_game 7 9 3)) (human_at [])" human list_pickle]
    guess_fires_exactly_one_notice [of "example_game 7 2 3"
      "example_world (SGame (example_game 7 2 3)) (human_at [])" human list_pickle]
    guess_fires_exactly_one_notice [of "example_game 7 7 3"
      "example_world (SGame (example_game 7 7 3)) (human_at [])" human list_pickle]
  apply (simp add: example_game_def example_world_def human_at_def human_def on_event_def)
  apply (auto simp add: call_game_handler_def Lobby_on_game_event_def Lobby_initialize_def
      Lobby_new_def LobbyState_default_def Game_count_guess_def)
  done

section \<open>The secret number of a new round\<close>

lemma counter_randint_in_range:
  assumes "a \<le> b"
  shows "a \<le> fst (counter_randint a b r) \<and> fst (counter_randint a b r) \<le> b"
proof -
  from assms have pos: "0 < b - a + 1" by simp
  have lo: "0 \<le> r mod (b - a + 1)"
    using pos by (rule pos_mod_sign)
  have "r mod (b - a + 1) < b - a + 1"
    using pos by (rule pos_mod_bound)
  then have hi: "r mod (b - a + 1) \<le> b - a" by linarith
  from lo hi show ?thesis unfolding counter_randint_def by simp
qed

lemma DIFFICULTY_SECRET_NUMBER_nonneg: "0 \<le> DIFFICULTY_SECRET_NUMBER d"
  by (cases d) simp_all

text \<open>
  C6. For every difficulty, the secret number that \<^verbatim>\<open>Game.initialize\<close> draws lies
  between 0 and the bound of the difficulty, both included, the bounds being 100 for
  Easy, 1000 for Medium and 100000 for Hard. The random generator is a parameter; what
  is asked of it is what \<^verbatim>\<open>random.randint\<close> promises: on a range that is not empty it
  answers with a number of the range.
\<close>

theorem secret_number_in_range:
  assumes "\<forall>a b r. a \<le> b \<longrightarrow> a \<le> fst (randint a b r) \<and> fst (randint a b r) \<le> b"
  shows "0 \<le> secret_number (g_state (fst (Game_initialize randint s g r)))
       \<and> secret_number (g_state (fst (Game_initialize randint s g r)))
           \<le> DIFFICULTY_SECRET_NUMBER (difficulty s)
       \<and> settings (g_state (fst (Game_initialize randint s g r))) = s
       \<and> DIFFICULTY_SECRET_NUMBER EASY = 100
       \<and> DIFFICULTY_SECRET_NUMBER MEDIUM = 1000
       \<and> DIFFICULTY_SECRET_NUMBER HARD = 100000"
proof -
  have "0 \<le> fst (randint 0 (DIFFICULTY_SECRET_NUMBER (difficulty s)) r)
      \<and> fst (randint 0 (DIFFICULTY_SECRET_NUMBER (difficulty s)) r)
          \<le> DIFFICULTY_SECRET_NUMBER (difficulty s)"
    using assms DIFFICULTY_SECRET_NUMBER_nonneg [of "difficulty s"] by blast
  then show ?thesis
    by (cases "randint 0 (DIFFICULTY_SECRET_NUMBER (difficulty s)) r")
      (simp add: Game_initialize_def Let_def)
qed

theorem secret_number_in_range_witness:
  "secret_number (g_state (fst (Game_initialize counter_randint \<lparr>difficulty = HARD\<rparr>
       (Game_new NO_HANDLER) 123456))) = 23455
   \<and> 0 \<le> secret_number (g_state (fst (Game_initialize counter_randint \<lparr>difficulty = HARD\<rparr>
       (Game_new NO_HANDLER) 123456)))
   \<and> secret_number (g_state (fst (Game_initialize counter_randint \<lparr>difficulty = HARD\<rparr>
       (Game_new NO_HANDLER) 123456))) \<le> 100000"
proof -
  have c: "\<forall>a b r. a \<le> b \<longrightarrow>
      a \<le> fst (counter_randint a b r) \<and> fst (counter_randint a b r) \<le> b"
    using counter_randint_in_range by blast
  show ?thesis
    using secret_number_in_range [OF c, of "\<lparr>difficulty = HARD\<rparr>" "Game_new NO_HANDLER" 123456]
    by (simp add: Game_initialize_def counter_randint_def Let_def)
qed

section \<open>Saving and loading a Game\<close>

text \<open>
  C7. A Game on the stack that handles a QUIT intent writes a snapshot from which
  \<^verbatim>\<open>load_state\<close>, on any Game object, restores a GameState equal to the one saved
  (secret number, player, settings and report), given that \<^verbatim>\<open>pickle.loads\<close> gives
  back the state that \<^verbatim>\<open>pickle.dumps\<close> was given. The same holds of
  \<^verbatim>\<open>load_state\<close> right after \<^verbatim>\<open>save_state\<close>.
\<close>

theorem quit_snapshot_round_trip:
  assumes "pk_loads_game pk (pk_dumps_game pk (g_state g)) = Inr (g_state g)"
    and "action (player (g_state g)) = Some QUIT"
    and "states w \<noteq> []"
  shows "\<exists>w'. Game_handle_action ctl pk g w = Inr (g, w')
           \<and> Game_load_state pk g0 w' = Inr (g0\<lparr>g_state := g_state g\<rparr>)
           \<and> Game_load_state pk g0 (Game_save_state pk g w) = Inr (g0\<lparr>g_state := g_state g\<rparr>)"
  using assms
  by (simp add: Game_handle_action_def Game_save_state_def Game_load_state_def pop_state_def)

theorem quit_snapshot_round_trip_witness:
  "\<exists>w'. Game_handle_action scripted list_pickle example_quit_game
            (example_world (SGame example_quit_game) []) = Inr (example_quit_game, w')
      \<and> Game_load_state list_pickle (Game_new (Lobby_on_game_event_of 1)) w' =
          Inr (Game_new (Lobby_on_game_event_of 1)\<lparr>g_state := g_state example_quit_game\<rparr>)"
  using quit_snapshot_round_trip [of list_pickle example_quit_game
      "example_world (SGame example_quit_game) []" scripted
      "Game_new (Lobby_on_game_event_of 1)"]
  by (auto simp add: list_pickle_def dumps_game_list_def example_world_def example_quit_game_def)

section \<open>The menus and the save files\<close>

text \<open>
  C8. The menu of the MainMenu holds Load Lobby exactly when the lobby snapshot file
  exists, and the menu of the Lobby holds Load Game exactly when the game snapshot file
  exists: for the two functions that build the menus, and for the menus that the
  program's controller keeps after drawing a MainMenu, respectively an enabled Lobby,
  in a world with or without the files.
\<close>

theorem load_option_offered_iff_snapshot_exists:
  "(LOAD_LOBBY \<in> snd ` set (create_main_menu_actions lobby_exists)) = lobby_exists
   \<and> (LOAD_GAME \<in> snd ` set (create_lobby_actions game_exists)) = game_exists
   \<and> (LOAD_LOBBY \<in> snd ` set (main_menu_actions (controller
          (State_draw human (SMainMenu m) w)))) = (saved_lobby w \<noteq> None)
   \<and> (LOAD_GAME \<in> snd ` set (lobby_actions (controller
          (State_draw human (SLobby (l\<lparr>l_enabled := True\<rparr>)) w)))) = (saved_game w \<noteq> None)"
  by (simp add: create_main_menu_actions_def create_lobby_actions_def State_draw_def
      human_def draw_def)

section \<open>No division by zero in normal play\<close>

lemma Game_check_guess_report:
  assumes "Game_check_guess ctl g w = Inr (g', w')"
  shows "guess_count (report (g_state g')) = guess_count (report (g_state g))
       \<and> action (player (g_state g')) = action (player (g_state g))"
  using assms
  by (auto simp add: Game_check_guess_def Let_def split: if_splits sum.splits prod.splits)

lemma Game_check_guess_no_zero_division:
  "guess_count (report (g_state g)) \<noteq> 0 \<Longrightarrow> Game_check_guess ctl g w \<noteq> Inl ZeroDivisionError"
  by (auto simp add: Game_check_guess_def Let_def compute_score_def pop_state_def
      split: if_splits sum.splits prod.splits)

lemma Game_handle_action_count:
  assumes "Game_handle_action ctl pk g w = Inr (g', w')"
  shows "guess_count (report (g_state g)) \<le> guess_count (report (g_state g'))"
proof (cases "action (player (g_state g)) = Some GUESS")
  case True
  with assms obtain g1 w1 where c: "Game_check_guess ctl (Game_count_guess g) w = Inr (g1, w1)"
    by (auto simp add: Game_handle_action_def split: sum.splits)
  from Game_check_guess_report [OF c] True
  have "action (player (g_state g1)) = Some GUESS"
    and n: "guess_count (report (g_state g1)) = guess_count (report (g_state g)) + 1"
    by (simp_all add: Game_count_guess_simps)
  with assms c True have "g' = g1"
    by (simp add: Game_handle_action_def)
  with n show ?thesis by simp
next
  case False
  with assms have "g' = g"
    by (auto simp add: Game_handle_action_def split: if_splits sum.splits)
  then show ?thesis by simp
qed

lemma Game_handle_action_no_zero_division:
  assumes "0 \<le> guess_count (report (g_state g))"
  shows "Game_handle_action ctl pk g w \<noteq> Inl ZeroDivisionError"
proof -
  have "guess_count (report (g_state (Game_count_guess g))) \<noteq> 0"
    using assms by (simp add: Game_count_guess_simps)
  from Game_check_guess_no_zero_division [OF this]
  have "Game_check_guess ctl (Game_count_guess g) w \<noteq> Inl ZeroDivisionError" .
  then show ?thesis
    by (auto simp add: Game_handle_action_def pop_state_def split: if_splits sum.splits)
qed

lemma update_Game_report:
  "update_Game g c = Inr (g1, c1) \<Longrightarrow> report (g_state g1) = report (g_state g)"
  by (auto simp add: update_Game_def split: sum.splits)

lemma update_Game_no_zero_division: "update_Game g c \<noteq> Inl ZeroDivisionError"
proof -
  have "ask v ls \<noteq> Inl ZeroDivisionError" for v ls
    by (induction v ls rule: ask.induct) simp_all
  then show ?thesis
    by (auto simp add: update_Game_def split: sum.splits)
qed

lemma normal_play_count_nonneg:
  "normal_play randint pk g \<Longrightarrow> 0 \<le> guess_count (report (g_state g))"
proof (induction rule: normal_play.induct)
  case (fresh s h r)
  show ?case
    by (cases "randint 0 (DIFFICULTY_SECRET_NUMBER (difficulty s)) r")
      (simp add: Game_initialize_def GameState_default_def GameReport_default_def)
next
  case (updated g w g' w')
  from updated.hyps(2) obtain g1 c1 where
    u: "update_Game (Game_update_begin g) (controller w) = Inr (g1, c1)"
    and h: "Game_handle_action human pk g1 (w\<lparr>controller := c1\<rparr>) = Inr (g', w')"
    by (auto simp add: Game_update_def human_def split: sum.splits)
  from update_Game_report [OF u]
  have "guess_count (report (g_state g1)) = guess_count (report (g_state g))"
    by (simp add: Game_update_begin_keeps_state)
  with Game_handle_action_count [OF h] updated.IH show ?case by simp
next
  case (loaded g h w g')
  from loaded.hyps(2,3) have "g_state g' = g_state g"
    by (auto simp add: Game_load_state_def Game_save_state_def)
  with loaded.IH show ?case by simp
qed

text \<open>
  C9. For every Game of normal play (a fresh round, or a snapshot that such a Game
  saved and that was loaded again, followed by any number of updates), a guess is
  counted before it is checked, so the count that the score is computed from is at
  least 1: \<^verbatim>\<open>compute_score\<close> on the counted Game returns the quotient, and neither
  handling an intent nor a whole update of that Game raises ZeroDivisionError.
\<close>

theorem score_never_divides_by_zero:
  assumes "normal_play randint pk g"
  shows "1 \<le> guess_count (report (g_state (Game_count_guess g)))
       \<and> compute_score (settings (g_state (Game_count_guess g)))
           (report (g_state (Game_count_guess g))) =
           Inr (DIFFICULTY_WIN_SCORE (difficulty (settings (g_state g)))
                  div (guess_count (report (g_state g)) + 1))
       \<and> Game_handle_action ctl pk' g w \<noteq> Inl ZeroDivisionError
       \<and> Game_update human pk' g w0 \<noteq> Inl ZeroDivisionError"
proof -
  from normal_play_count_nonneg [OF assms]
  have n: "0 \<le> guess_count (report (g_state g))" .
  have u: "Game_update human pk' g w0 \<noteq> Inl ZeroDivisionError"
  proof (cases "update_Game (Game_update_begin g) (controller w0)")
    case (Inl e)
    with update_Game_no_zero_division [of "Game_update_begin g" "controller w0"]
    show ?thesis by (simp add: Game_update_def human_def)
  next
    case (Inr p)
    obtain g1 c1 where p: "p = (g1, c1)" by (cases p)
    from update_Game_report [OF Inr [unfolded p]] n
    have "0 \<le> guess_count (report (g_state g1))"
      by (simp add: Game_update_begin_keeps_state)
    from Game_handle_action_no_zero_division [OF this] Inr p
    show ?thesis by (simp add: Game_update_def human_def)
  qed
  from n u Game_handle_action_no_zero_division [OF n] show ?thesis
    by (simp add: Game_count_guess_simps compute_score_def)
qed

theorem score_never_divides_by_zero_witness:
  "Game_update human list_pickle
     (fst (Game_initialize counter_randint \<lparr>difficulty = EASY\<rparr> (Game_new NO_HANDLER) 5))
     (example_world
        (SGame (fst (Game_initialize counter_randint \<lparr>difficulty = EASY\<rparr> (Game_new NO_HANDLER) 5)))
        (human_at [Some 5])) \<noteq> Inl ZeroDivisionError
   \<and> compute_score
       (settings (g_state (Game_count_guess
          (fst (Game_initialize counter_randint \<lparr>difficulty = EASY\<rparr> (Game_new NO_HANDLER) 5)))))
       (report (g_state (Game_count_guess
          (fst (Game_initialize counter_randint \<lparr>difficulty = EASY\<rparr> (Game_new NO_HANDLER) 5)))))
       = Inr 10"
  using score_never_divides_by_zero [OF normal_play.fresh
      [of counter_randint list_pickle "\<lparr>difficulty = EASY\<rparr>" NO_HANDLER 5],
      of human list_pickle
      "example_world
        (SGame (fst (Game_initialize counter_randint \<lparr>difficulty = EASY\<rparr> (Game_new NO_HANDLER) 5)))
        (human_at [Some 5])"
      "example_world
        (SGame (fst (Game_initialize counter_randint \<lparr>difficulty = EASY\<rparr> (Game_new NO_HANDLER) 5)))
        (human_at [Some 5])"]
  by (simp add: Game_initialize_def counter_randint_def Game_new_def GameState_default_def
      GameReport_default_def Let_def Game_count_guess_def compute_score_def)

section \<open>Who writes the game save file\<close>

lemma saved_game_call_setup_handler:
  "saved_game (call_setup_handler h e w) = saved_game w"
  by (simp add: call_setup_handler_def
      split: NewGameSetupEventHandler.splits option.splits State.splits)

lemma saved_game_pop_state:
  "pop_state w = Inr (a, w') \<Longrightarrow> saved_game w' = saved_game w"
  by (auto simp add: pop_state_def split: if_splits)

lemma saved_game_new_object: "saved_game (snd (new_object s w)) = saved_game w"
  by (simp add: new_object_def)

lemma saved_game_push_state: "saved_game (push_state a w) = saved_game w"
  by (simp add: push_state_def)

lemma saved_game_put_object: "saved_game (put_object a s w) = saved_game w"
  by (simp add: put_object_def)

lemma saved_game_Game_check_guess:
  assumes "Game_check_guess ctl g w = Inr (g', w')"
  shows "saved_game w' = saved_game w"
  using assms
  by (auto simp add: Game_check_guess_def Let_def new_object_def push_state_def
      saved_game_call_game_handler
      split: if_splits sum.splits prod.splits dest!: saved_game_pop_state)

lemma saved_game_Game_handle_action:
  assumes "Game_handle_action ctl pk g w = Inr (g', w')"
    and "action (player (g_state g)) \<noteq> Some QUIT"
  shows "saved_game w' = saved_game w"
proof (cases "action (player (g_state g)) = Some GUESS")
  case True
  with assms(1) obtain g1 w1 where c: "Game_check_guess ctl (Game_count_guess g) w = Inr (g1, w1)"
    by (auto simp add: Game_handle_action_def split: sum.splits)
  from Game_check_guess_report [OF c] True
  have "action (player (g_state g1)) = Some GUESS"
    by (simp add: Game_count_guess_simps)
  with assms(1) c True have "w' = w1"
    by (simp add: Game_handle_action_def)
  with saved_game_Game_check_guess [OF c] show ?thesis by simp
next
  case False
  with assms show ?thesis
    by (simp add: Game_handle_action_def)
qed

lemma saved_game_NewGameSetup_update:
  "NewGameSetup_update ctl n w = Inr (n', w') \<Longrightarrow> saved_game w' = saved_game w"
  by (auto simp add: NewGameSetup_update_def NewGameSetup_handle_action_def
      saved_game_call_setup_handler
      split: if_splits sum.splits prod.splits dest!: saved_game_pop_state)

lemma saved_game_Lobby_handle_actions:
  "Lobby_handle_actions pk a l w = Inr (l', w') \<Longrightarrow> saved_game w' = saved_game w"
  by (auto simp add: Lobby_handle_actions_def Let_def new_object_def push_state_def
      Lobby_save_state_def
      split: if_splits sum.splits prod.splits dest!: saved_game_pop_state)

lemma saved_game_Lobby_update:
  "Lobby_update ctl pk randint a l w = Inr (l', w') \<Longrightarrow> saved_game w' = saved_game w"
  by (auto simp add: Lobby_update_def Let_def new_object_def push_state_def
      split: if_splits sum.splits prod.splits dest!: saved_game_Lobby_handle_actions)

lemma saved_game_MainMenu_update:
  "MainMenu_update ctl pk m w = Inr (m', w') \<Longrightarrow> saved_game w' = saved_game w"
  by (auto simp add: MainMenu_update_def MainMenu_handle_actions_def Let_def new_object_def
      push_state_def
      split: if_splits sum.splits prod.splits dest!: saved_game_pop_state)

lemma saved_game_Victory_update:
  "Victory_update ctl v w = Inr (v', w') \<Longrightarrow> saved_game w' = saved_game w"
  by (auto simp add: Victory_update_def
      split: if_splits sum.splits prod.splits dest!: saved_game_pop_state)

lemma saved_game_Credits_update:
  "Credits_update ctl k w = Inr (k', w') \<Longrightarrow> saved_game w' = saved_game w"
  by (auto simp add: Credits_update_def
      split: if_splits sum.splits prod.splits dest!: saved_game_pop_state)

lemma saved_game_State_update:
  assumes "State_update ctl pk randint a w = Inr w'"
    and "saved_game w' \<noteq> saved_game w"
  shows "\<exists>g g1 c1. heap w a = Some (SGame g)
           \<and> ctl_update_Game ctl (Game_update_begin g) (controller w) = Inr (g1, c1)
           \<and> action (player (g_state g1)) = Some QUIT"
proof (cases "heap w a")
  case None
  with assms show ?thesis by (simp add: State_update_def)
next
  case (Some s)
  show ?thesis
  proof (cases s)
    case (SGame g)
    with Some assms(1) obtain g' w1 where u: "Game_update ctl pk g w = Inr (g', w1)"
      and w': "w' = put_object a (SGame g') w1"
      by (auto simp add: State_update_def split: sum.splits)
    from u obtain g1 c1 where
      c: "ctl_update_Game ctl (Game_update_begin g) (controller w) = Inr (g1, c1)"
      and h: "Game_handle_action ctl pk g1 (w\<lparr>controller := c1\<rparr>) = Inr (g', w1)"
      by (auto simp add: Game_update_def split: sum.splits)
    have "action (player (g_state g1)) = Some QUIT"
    proof (rule ccontr)
      assume "action (player (g_state g1)) \<noteq> Some QUIT"
      from saved_game_Game_handle_action [OF h this] w' assms(2)
      show False by (simp add: saved_game_put_object)
    qed
    with Some SGame c show ?thesis by simp
  next
    case (SNewGameSetup n)
    with Some assms show ?thesis
      by (auto simp add: State_update_def saved_game_put_object
          split: sum.splits dest!: saved_game_NewGameSetup_update)
  next
    case (SLobby l)
    with Some assms show ?thesis
      by (auto simp add: State_update_def saved_game_put_object
          split: sum.splits dest!: saved_game_Lobby_update)
  next
    case (SMainMenu m)
    with Some assms show ?thesis
      by (auto simp add: State_update_def saved_game_put_object
          split: sum.splits dest!: saved_game_MainMenu_update)
  next
    case (SVictory v)
    with Some assms show ?thesis
      by (auto simp add: State_update_def saved_game_put_object
          split: sum.splits dest!: saved_game_Victory_update)
  next
    case (SCredits k)
    with Some assms show ?thesis
      by (auto simp add: State_update_def saved_game_put_object
          split: sum.splits dest!: saved_game_Credits_update)
  qed
qed

text \<open>
  C10. Handling a GUESS intent, the winning guess included, leaves the game save file
  as it was; and whenever the update of any state, with any controller, ends with the
  game save file changed, the state is a Game to which the Controller has just given
  the intent QUIT.
\<close>

theorem game_file_written_only_on_quit:
  "(action (player (g_state g)) = Some GUESS \<longrightarrow>
      Game_handle_action ctl pk g w = Inr (g', w') \<longrightarrow> saved_game w' = saved_game w)
   \<and> (State_update ctl pk randint a w = Inr w2 \<longrightarrow> saved_game w2 \<noteq> saved_game w \<longrightarrow>
        (\<exists>q q1 c1. heap w a = Some (SGame q)
           \<and> ctl_update_Game ctl (Game_update_begin q) (controller w) = Inr (q1, c1)
           \<and> action (player (g_state q1)) = Some QUIT))"
  using saved_game_Game_handle_action [of ctl pk g w g' w']
    saved_game_State_update [of ctl pk randint a w w2]
  by auto


theorem game_file_written_only_on_quit_witness:
  "saved_game (snd (projr (Game_handle_action human list_pickle (example_game 7 7 3)
       (example_world (SGame (example_game 7 7 3)) (human_at [])))))
     = saved_game (example_world (SGame (example_game 7 7 3)) (human_at []))
   \<and> saved_game (projr (State_update scripted list_pickle counter_randint 2
       (example_world (SGame (example_game 7 7 3)) [(QUIT, 0::int)]))) = Some [7, 0, 2, 1, 3, 0]
   \<and> (\<exists>q q1 c1. heap (example_world (SGame (example_game 7 7 3)) [(QUIT, 0::int)]) 2 = Some (SGame q)
         \<and> ctl_update_Game scripted (Game_update_begin q)
             (controller (example_world (SGame (example_game 7 7 3)) [(QUIT, 0::int)])) = Inr (q1, c1)
         \<and> action (player (g_state q1)) = Some QUIT)"
proof -
  let ?W = "example_world (SGame (example_game 7 7 3)) (human_at [])"
  let ?V = "example_world (SGame (example_game 7 7 3)) [(QUIT, 0::int)]"
  let ?r = "Game_handle_action human list_pickle (example_game 7 7 3) ?W"
  let ?u = "State_update scripted list_pickle counter_randint 2 ?V"
  have "\<not> isl ?r"
    by (simp add: example_world_def example_game_def Game_handle_action_def
        Game_count_guess_def Game_check_guess_def compute_score_def Let_def pop_state_def
        states_call_game_handler new_object_def push_state_def)
  then have r: "?r = Inr (fst (projr ?r), snd (projr ?r))"
    by (cases ?r) auto
  have u1: "\<not> isl ?u \<and> saved_game (projr ?u) = Some [7, 0, 2, 1, 3, 0]"
    by (simp add: State_update_def example_world_def Game_update_def scripted_def
        scripted_update_Game_def Game_update_begin_def example_game_def Game_handle_action_def
        Game_save_state_def pop_state_def put_object_def list_pickle_def dumps_game_list_def)
  then have u: "?u = Inr (projr ?u)"
    by (cases ?u) auto
  have d: "saved_game (projr ?u) \<noteq> saved_game ?V"
    using u1 by (simp add: example_world_def)
  have g: "action (player (g_state (example_game 7 7 3))) = Some GUESS"
    by (simp add: example_game_def)
  from game_file_written_only_on_quit [of "example_game 7 7 3" human list_pickle ?W
      "fst (projr ?r)" "snd (projr ?r)"] g r
  have one: "saved_game (snd (projr ?r)) = saved_game ?W" by blast
  from game_file_written_only_on_quit [of _ scripted list_pickle ?V _ _ counter_randint 2
      "projr ?u"] u d
  have two: "\<exists>q q1 c1. heap ?V 2 = Some (SGame q)
         \<and> ctl_update_Game scripted (Game_update_begin q) (controller ?V) = Inr (q1, c1)
         \<and> action (player (g_state q1)) = Some QUIT" by blast
  from u1 have three: "saved_game (projr ?u) = Some [7, 0, 2, 1, 3, 0]" by (rule conjunct2)
  show ?thesis
    by (rule conjI [OF one conjI [OF three two]])
qed

end
